theory Spec2Isabelle
  imports Complex_Main "HOL-Library.Char_ord" "HOL-Library.List_Lexorder" "HOL-Library.Multiset"
begin

section \<open>Shared data model\<close>

text \<open>
  A Node.js \<open>Buffer\<close> is a sequence of bytes. Isabelle's \<open>char\<close> is an 8-bit
  value, so a buffer is a \<open>char list\<close>; a JavaScript string holding base64 or hex text is
  a \<open>string\<close>, compared by \<open><\<close> code unit by code unit (the lexicographic order
  on \<open>char list\<close>). JavaScript numbers that hold voting powers and satoshi amounts are
  integers in the safe range and are modelled as \<open>int\<close>; \<open>Number.isInteger\<close> is
  therefore true for every value of the model.
\<close>

type_synonym bytes = "char list"

text \<open>
  Every \<open>throw\<close> of the source is a value of this type. The comment gives the message of
  the \<open>Error\<close> thrown; the constructor carries the name the specification uses for it
  where it has one.
\<close>

datatype error =
    BadFormat             \<comment> \<open>thrown by \<open>protocol.types.transaction.decode\<close>\<close>
  | AlreadyProcessed      \<comment> \<open>'Deposit transaction has already been processed'\<close>
  | UnknownHeight         \<comment> \<open>thrown by \<open>chain.getByHeight\<close>\<close>
  | BadProof              \<comment> \<open>thrown by \<open>verifyMerkleProof\<close>\<close>
  | BadProofCount         \<comment> \<open>'Expected exactly one txid included in proof'\<close>
  | BadProofMismatch      \<comment> \<open>'Merkle proof does not match given transaction'\<close>
  | InvalidKeyLength      \<comment> \<open>'Invalid signatory key length'\<close>
  | InvalidSignature      \<comment> \<open>'Invalid signature'\<close>
  | InvalidSignatoryIndex \<comment> \<open>'Invalid signatory index' (an index that is not an integer, or a
                              null validator key: excluded by the types of the model)\<close>
  | TypeError             \<comment> \<open>property access on \<open>undefined\<close>\<close>
  | NotInteger            \<comment> \<open>'Number must be an integer' (excluded by the type \<open>int\<close>)\<close>
  | OutOfRange            \<comment> \<open>'Number must be >= 0 and < 2^32'\<close>
  | InsufficientFunds     \<comment> \<open>'Output amount exceeds input amount'\<close>
  | OutputBelowFee        \<comment> \<open>'Output is not large enough to pay fee'\<close>
  | TfTypeError           \<comment> \<open>thrown by typeforce in \<open>tx.addInput\<close> and \<open>tx.addOutput\<close>\<close>
  | UnknownTransactionType \<comment> \<open>'Unknown transaction type'\<close>

section \<open>reserve.ts: the signatory set and the witness script\<close>

definition MAX_SIGNATORIES :: nat where
  "MAX_SIGNATORIES = 76"

definition MIN_RELAY_FEE :: int where
  "MIN_RELAY_FEE = 1000"

text \<open>
  \<open>ValidatorMap\<close> is an object from validator key (base64 text) to voting power.
  \<open>Object.entries\<close> lists each key once, in insertion order: an association list.
  \<open>SignatoryKeyMap\<close> is an object from validator key to the committed key buffer.
\<close>

type_synonym validatorMap = "(string \<times> int) list"
type_synonym signatoryKeyMap = "string \<rightharpoonup> bytes"

text \<open>
  The functions of this file take objects with structural types such as
  \<open>{ votingPower: number }\<close>; the record scheme of \<open>hasVotingPower\<close> is that type.
\<close>

record hasVotingPower =
  votingPower :: int

record signatory = hasVotingPower +
  validatorKey :: string

record keyedSignatory = hasVotingPower +
  pubkey :: string

subsection \<open>uint\<close>

definition hexDigit :: "nat \<Rightarrow> char" where
  "hexDigit d = ''0123456789abcdef'' ! d"

text \<open>\<open>n.toString(16)\<close> for a non-negative integer: most significant digit first.\<close>

function toString16 :: "nat \<Rightarrow> string" where
  "toString16 n = (if n < 16 then [hexDigit n] else toString16 (n div 16) @ [hexDigit (n mod 16)])"
  by pat_completeness auto
termination
  by (relation "measure id") auto

declare toString16.simps [simp del]

text \<open>
  \<open>uint\<close>: \<open>Number(n)\<close> is the number itself and \<open>Number.isInteger(n)\<close> holds, so
  'Number must be an integer' is not thrown; then the range check, the hexadecimal
  digits, and a leading \<open>0\<close> when their number is odd.
\<close>

definition uint :: "int \<Rightarrow> error + string" where
  "uint n =
     (if n > 0xffffffff \<or> n < 0 then Inl OutOfRange
      else let nHex = toString16 (nat n)
           in Inr (if length nHex mod 2 = 1 then CHR ''0'' # nHex else nHex))"

text \<open>
  For comparison, following the specification's words ("a minimal-length little-endian
  integer"): the bytes of a non-negative integer, least significant byte first, with no
  byte beyond the most significant non-zero one.
\<close>

function spec_littleEndian :: "nat \<Rightarrow> bytes" where
  "spec_littleEndian n =
     (if n = 0 then [] else char_of (n mod 256) # spec_littleEndian (n div 256))"
  by pat_completeness auto
termination
  by (relation "measure id") auto

declare spec_littleEndian.simps [simp del]

subsection \<open>getVotingPowerThreshold\<close>

text \<open>
  \<open>Math.ceil(a / b)\<close> on integers with a positive divisor, written with integer
  division (lemma \<open>ceilDiv_ceiling\<close> below relates it to the ceiling of the quotient).
\<close>

definition ceilDiv :: "int \<Rightarrow> int \<Rightarrow> int" where
  "ceilDiv a b = - ((- a) div b)"

definition getVotingPowerThreshold :: "'a hasVotingPower_scheme list \<Rightarrow> int" where
  "getVotingPowerThreshold signatories =
     (let totalVotingPower = foldl (\<lambda>sum s. sum + votingPower s) 0 signatories;
          twoThirdsVotingPower = ceilDiv (totalVotingPower * 2) 3
      in twoThirdsVotingPower)"

subsection \<open>The script fragments\<close>

text \<open>
  The source builds the script as text: template strings whose words are separated by
  spaces and line breaks, concatenated, and passed through \<open>trim\<close>, which splits at every
  white-space character, drops the empty pieces and joins the rest with single spaces.
  The model keeps the text as the list of its words: a template is the list of its
  words in order (an interpolated value is one word, possibly empty), concatenation of
  text is concatenation of lists, and \<open>trim\<close> drops the empty words.
  \<open>script.fromASM\<close> of bitcoinjs-lib then compiles the words to bytes.
\<close>

definition firstSignatory :: "keyedSignatory \<Rightarrow> error + string list" where
  "firstSignatory signatory =
     (case uint (votingPower signatory) of
        Inl e \<Rightarrow> Inl e
      | Inr vp \<Rightarrow> Inr [pubkey signatory, ''OP_CHECKSIG'', ''OP_IF'', vp,
                        ''OP_ELSE'', ''OP_0'', ''OP_ENDIF''])"

definition nthSignatory :: "keyedSignatory \<Rightarrow> error + string list" where
  "nthSignatory signatory =
     (case uint (votingPower signatory) of
        Inl e \<Rightarrow> Inl e
      | Inr vp \<Rightarrow> Inr [''OP_SWAP'', pubkey signatory, ''OP_CHECKSIG'', ''OP_IF'', vp,
                        ''OP_ADD'', ''OP_ENDIF''])"

definition compare :: "int \<Rightarrow> error + string list" where
  "compare threshold =
     (case uint threshold of
        Inl e \<Rightarrow> Inl e
      | Inr t \<Rightarrow> Inr [t, ''OP_GREATERTHAN''])"

definition trim :: "string list \<Rightarrow> string list" where
  "trim s = filter (\<lambda>w. w \<noteq> []) s"

text \<open>\<open>xs.map(f)\<close> where \<open>f\<close> may throw: the first exception ends the traversal.\<close>

fun mapThrowing :: "('a \<Rightarrow> error + 'b) \<Rightarrow> 'a list \<Rightarrow> error + 'b list" where
  "mapThrowing f [] = Inr []"
| "mapThrowing f (x # xs) =
     (case f x of
        Inl e \<Rightarrow> Inl e
      | Inr y \<Rightarrow> (case mapThrowing f xs of Inl e \<Rightarrow> Inl e | Inr ys \<Rightarrow> Inr (y # ys)))"

subsection \<open>getSignatorySet\<close>

text \<open>
  \<open>buffer.toString('base64')\<close>, the base64 text of RFC 4648 with padding. The consensus
  layer lists a validator under the base64 text of its 32-byte consensus key
  (\<open>pub_key.value\<close>), and that text is the key of the validator map.
\<close>

definition base64Digit :: "nat \<Rightarrow> char" where
  "base64Digit d = ''ABCDEFGHIJKLMNOPQRSTUVWXYZabcdefghijklmnopqrstuvwxyz0123456789+/'' ! d"

fun base64 :: "bytes \<Rightarrow> string" where
  "base64 [] = []"
| "base64 [a] =
     [base64Digit (of_char a div 4), base64Digit (of_char a mod 4 * 16), CHR ''='', CHR ''='']"
| "base64 [a, b] =
     [base64Digit (of_char a div 4), base64Digit (of_char a mod 4 * 16 + of_char b div 16),
      base64Digit (of_char b mod 16 * 4), CHR ''='']"
| "base64 (a # b # c # rest) =
     [base64Digit (of_char a div 4), base64Digit (of_char a mod 4 * 16 + of_char b div 16),
      base64Digit (of_char b mod 16 * 4 + of_char c div 64), base64Digit (of_char c mod 64)]
     @ base64 rest"

text \<open>The comparison function passed to \<open>entries.sort\<close>.\<close>

definition compareEntries :: "string \<times> int \<Rightarrow> string \<times> int \<Rightarrow> int" where
  "compareEntries a b =
     (let votingPowerA = snd a;
          votingPowerB = snd b;
          cmp = votingPowerB - votingPowerA
      in if cmp = 0 then (if fst b < fst a then 1 else - 1) else cmp)"

text \<open>
  The order of the comparison function: \<open>compareEntries a b > 0\<close>, which places \<open>a\<close>
  after \<open>b\<close>, holds exactly when \<open>ranksBefore b a\<close> (lemma \<open>compareEntries_pos\<close>).
\<close>

definition ranksBefore :: "string \<times> int \<Rightarrow> string \<times> int \<Rightarrow> bool" where
  "ranksBefore a b \<longleftrightarrow> snd b < snd a \<or> (snd a = snd b \<and> fst a < fst b)"

text \<open>
  \<open>Array.prototype.sort\<close> with a comparison function \<open>c\<close>: \<open>a\<close> is placed after \<open>b\<close>
  when \<open>c a b > 0\<close>. The engine's algorithm is not fixed by the language; insertion sort
  is used here. On entries with distinct keys \<open>compareEntries\<close> is a strict total order,
  so every sorting algorithm returns the same list (lemma \<open>sorted_perm_unique\<close> below).
\<close>

fun insertBy :: "('a \<Rightarrow> 'a \<Rightarrow> int) \<Rightarrow> 'a \<Rightarrow> 'a list \<Rightarrow> 'a list" where
  "insertBy c x [] = [x]"
| "insertBy c x (y # ys) = (if c x y > 0 then y # insertBy c x ys else x # y # ys)"

definition sortBy :: "('a \<Rightarrow> 'a \<Rightarrow> int) \<Rightarrow> 'a list \<Rightarrow> 'a list" where
  "sortBy c xs = foldr (insertBy c) xs []"

definition getSignatorySet :: "validatorMap \<Rightarrow> signatory list" where
  "getSignatorySet validators =
     (let entries = sortBy compareEntries validators
      in take MAX_SIGNATORIES
           (map (\<lambda>(validatorKey, votingPower).
                   \<lparr>votingPower = votingPower, validatorKey = validatorKey\<rparr>) entries))"

subsection \<open>createWitnessScript\<close>

text \<open>\<open>buffer.toString('hex')\<close>: two digits for each byte.\<close>

definition toHex :: "bytes \<Rightarrow> string" where
  "toHex b = concat (map (\<lambda>c. [hexDigit (of_char c div 16), hexDigit (of_char c mod 16)]) b)"

text \<open>
  The \<open>filter\<close> keeps the validators whose key object has an entry (a buffer is always
  truthy), the \<open>map\<close> replaces the validator key by the hex text of the committed key.
\<close>

definition committedSignatories :: "signatory list \<Rightarrow> signatoryKeyMap \<Rightarrow> keyedSignatory list" where
  "committedSignatories signatorySet signatoryKeys =
     map (\<lambda>v. \<lparr>votingPower = votingPower v,
               pubkey = toHex (case signatoryKeys (validatorKey v) of Some pubkeyBytes \<Rightarrow> pubkeyBytes | None \<Rightarrow> [])\<rparr>)
         (filter (\<lambda>validator. signatoryKeys (validatorKey validator) \<noteq> None) signatorySet)"

text \<open>
  With no signatory left, \<open>signatories[0]\<close> is \<open>undefined\<close> and \<open>firstSignatory\<close> throws
  a \<open>TypeError\<close> when it reads \<open>signatory.pubkey\<close>.
\<close>

definition createWitnessScript :: "validatorMap \<Rightarrow> signatoryKeyMap \<Rightarrow> error + string list" where
  "createWitnessScript validators signatoryKeys =
     (let signatories = committedSignatories (getSignatorySet validators) signatoryKeys;
          twoThirdsVotingPower = getVotingPowerThreshold signatories
      in case signatories of
           [] \<Rightarrow> Inl TypeError
         | s0 # rest \<Rightarrow>
             (case firstSignatory s0 of
                Inl e \<Rightarrow> Inl e
              | Inr first \<Rightarrow>
                  (case mapThrowing nthSignatory rest of
                     Inl e \<Rightarrow> Inl e
                   | Inr others \<Rightarrow>
                       (case compare twoThirdsVotingPower of
                          Inl e \<Rightarrow> Inl e
                        | Inr cmp \<Rightarrow> Inr (trim (first @ concat others @ cmp))))))"

subsection \<open>buildOutgoingTx\<close>

text \<open>
  \<open>SigningTx\<close>: the inputs \<open>{ txid, index, amount }\<close> and the user outputs
  \<open>{ script, amount }\<close> of the disbursal being signed.
\<close>

record hasAmount =
  amount :: int

record signingInput = hasAmount +
  txid :: bytes
  index :: int

record signingOutput = hasAmount +
  script :: bytes

record signingTx =
  inputs :: "signingInput list"
  outputs :: "signingOutput list"

text \<open>
  The \<open>Transaction\<close> of bitcoinjs-lib, reduced to what the builder writes: the inputs
  \<open>(hash, index)\<close> and the outputs \<open>(script, value)\<close>.
\<close>

record txInput =
  hash :: bytes
  inIndex :: int

record txOutput =
  outScript :: bytes
  outValue :: int

record Transaction =
  ins :: "txInput list"
  outs :: "txOutput list"

definition newTransaction :: Transaction where
  "newTransaction = \<lparr>ins = [], outs = []\<rparr>"

text \<open>
  \<open>tx.addInput\<close> and \<open>tx.addOutput\<close> of bitcoinjs-lib check their arguments with
  typeforce before they extend the transaction, and throw when the check fails:
  \<open>addInput\<close> takes a hash of 32 bytes (\<open>types.Hash256bit\<close>) and an index that is an
  unsigned 32-bit integer (\<open>types.UInt32\<close>); \<open>addOutput\<close> takes a buffer and a value
  that is an integer of at most 53 bits and at most \<open>SATOSHI_MAX = 21 * 1e14\<close>
  (\<open>types.Satoshi\<close>).
\<close>

definition SATOSHI_MAX :: int where
  "SATOSHI_MAX = 21 * 10 ^ 14"

definition Hash256bit :: "bytes \<Rightarrow> bool" where
  "Hash256bit h \<longleftrightarrow> length h = 32"

definition UInt32 :: "int \<Rightarrow> bool" where
  "UInt32 n \<longleftrightarrow> 0 \<le> n \<and> n \<le> 0xffffffff"

definition Satoshi :: "int \<Rightarrow> bool" where
  "Satoshi v \<longleftrightarrow> 0 \<le> v \<and> v \<le> 2 ^ 53 - 1 \<and> v \<le> SATOSHI_MAX"

definition addInput :: "Transaction \<Rightarrow> bytes \<Rightarrow> int \<Rightarrow> error + Transaction" where
  "addInput tx h i =
     (if Hash256bit h \<and> UInt32 i then Inr (tx\<lparr>ins := ins tx @ [\<lparr>hash = h, inIndex = i\<rparr>]\<rparr>)
      else Inl TfTypeError)"

definition addOutput :: "Transaction \<Rightarrow> bytes \<Rightarrow> int \<Rightarrow> error + Transaction" where
  "addOutput tx s v =
     (if Satoshi v then Inr (tx\<lparr>outs := outs tx @ [\<lparr>outScript = s, outValue = v\<rparr>]\<rparr>)
      else Inl TfTypeError)"

text \<open>
  What the builder calls in bitcoinjs-lib besides: \<open>tx.byteLength()\<close>, and
  \<open>payments.p2wsh({ redeem: { output }, network }).output\<close> applied to the compiled
  script, with the name of the entry of \<open>networks\<close>.
\<close>

record bitcoinjs =
  byteLength :: "Transaction \<Rightarrow> int"
  p2wshOutput :: "string list \<Rightarrow> string \<Rightarrow> bytes"

definition createOutput ::
  "bitcoinjs \<Rightarrow> validatorMap \<Rightarrow> signatoryKeyMap \<Rightarrow> string \<Rightarrow> error + bytes" where
  "createOutput lib validators signatoryKeys network =
     (case createWitnessScript validators signatoryKeys of
        Inl e \<Rightarrow> Inl e
      | Inr p2ss \<Rightarrow>
          Inr (p2wshOutput lib p2ss (if network = ''mainnet'' then ''bitcoin'' else network)))"

text \<open>The first loop: add every input, sum the amounts.\<close>

fun addInputs ::
  "Transaction \<Rightarrow> int \<Rightarrow> signingInput list \<Rightarrow> error + Transaction \<times> int" where
  "addInputs tx totalAmount [] = Inr (tx, totalAmount)"
| "addInputs tx totalAmount (i # rest) =
     (case addInput tx (txid i) (index i) of
        Inl e \<Rightarrow> Inl e
      | Inr tx' \<Rightarrow> addInputs tx' (totalAmount + amount i) rest)"

text \<open>
  The second loop: add every user output (the library checks it first), throw when
  nothing remains.
\<close>

fun addOutputs ::
  "Transaction \<Rightarrow> int \<Rightarrow> signingOutput list \<Rightarrow> error + Transaction \<times> int" where
  "addOutputs tx remainingAmount [] = Inr (tx, remainingAmount)"
| "addOutputs tx remainingAmount (out # rest) =
     (case addOutput tx (script out) (amount out) of
        Inl e \<Rightarrow> Inl e
      | Inr tx' \<Rightarrow>
          (let remainingAmount' = remainingAmount - amount out
           in if remainingAmount' \<le> 0 then Inl InsufficientFunds
              else addOutputs tx' remainingAmount' rest))"

text \<open>
  The third loop, \<open>for (let i = 0; i < outputs.length; i++)\<close>, over the output array of
  the transaction: \<open>n\<close> is \<open>outputs.length\<close>, and the array holds \<open>n + 1\<close> outputs. The
  loop assigns to \<open>out.value\<close> directly; the library checks nothing here.
\<close>

function payFees :: "int \<Rightarrow> nat \<Rightarrow> nat \<Rightarrow> txOutput list \<Rightarrow> error + txOutput list" where
  "payFees feeAmountPerWithdrawal i n txOuts =
     (if i < n then
        (let out = txOuts ! i;
             out' = out\<lparr>outValue := outValue out - feeAmountPerWithdrawal\<rparr>
         in if outValue out' \<le> 0 then Inl OutputBelowFee
            else payFees feeAmountPerWithdrawal (Suc i) n (txOuts[i := out']))
      else Inr txOuts)"
  by pat_completeness auto
termination
  by (relation "measure (\<lambda>(f, i, n, txOuts). n - i)") auto

declare payFees.simps [simp del]

text \<open>
  With no user output \<open>feeAmount / outputs.length\<close> is \<open>Infinity\<close>; the loop body never
  runs and the value is never used, so that case returns the transaction as it is.
\<close>

definition buildOutgoingTx ::
  "bitcoinjs \<Rightarrow> signingTx \<Rightarrow> validatorMap \<Rightarrow> signatoryKeyMap \<Rightarrow> string \<Rightarrow> error + Transaction" where
  "buildOutgoingTx lib signingTx validators signatoryKeys network =
     (case addInputs newTransaction 0 (inputs signingTx) of
        Inl e \<Rightarrow> Inl e
      | Inr (tx, totalAmount) \<Rightarrow>
          (case addOutputs tx totalAmount (outputs signingTx) of
             Inl e \<Rightarrow> Inl e
           | Inr (tx, remainingAmount) \<Rightarrow>
               (case createOutput lib validators signatoryKeys network of
                  Inl e \<Rightarrow> Inl e
                | Inr p2ss \<Rightarrow>
                    (case addOutput tx p2ss remainingAmount of
                       Inl e \<Rightarrow> Inl e
                     | Inr tx \<Rightarrow>
                         (let txLength = byteLength lib tx;
                              feeAmount = max txLength MIN_RELAY_FEE;
                              n = length (outputs signingTx)
                          in if n = 0 then Inr tx
                             else (case payFees (ceilDiv feeAmount (int n)) 0 n (outs tx) of
                                     Inl e \<Rightarrow> Inl e
                                   | Inr txOuts \<Rightarrow> Inr (tx\<lparr>outs := txOuts\<rparr>)))))))"

section \<open>index.js: the transaction handlers\<close>

record header =
  height :: int
  version :: int
  prevHash :: bytes
  merkleRoot :: bytes
  timestamp :: int
  bits :: int
  nonce :: int

text \<open>
  The proof object of a deposit: \<open>tx.proof.height\<close>, the field \<open>tx.proof.merkleRoot\<close>
  that the handler overwrites, and the hashes the proof library reads.
\<close>

record merkleProof =
  proofHeight :: int
  proofMerkleRoot :: bytes
  proofHashes :: "bytes list"

text \<open>A transaction as \<open>protocol.types.transaction.decode\<close> returns it.\<close>

record decodedTx =
  txVersion :: int
  txIns :: "txInput list"
  txOuts :: "txOutput list"
  txLocktime :: int

record depositMsg =
  transaction :: bytes
  txProof :: merkleProof

record signatoryKeyMsg =
  signatoryIndex :: int
  signatoryKey :: bytes
  signature :: bytes

text \<open>
  Modelled from the spec: the element type of \<open>state.utxos\<close>, a list that index.js
  creates empty and never reads or extends, \<open>(txid, vout, amount, p2ss_address)\<close>.
\<close>

record utxo =
  utxoTxid :: bytes
  utxoVout :: int
  utxoAmount :: int
  utxoAddress :: string

text \<open>The state object the handlers mutate, with the fields \<open>initializer\<close> creates.\<close>

record state =
  chain :: "header list"
  signatoryKeys :: signatoryKeyMap
  processedTxs :: "string \<rightharpoonup> bool"
  utxos :: "utxo list"

definition initializer :: "header \<Rightarrow> state" where
  "initializer initialHeader =
     \<lparr>chain = [initialHeader], signatoryKeys = Map.empty, processedTxs = Map.empty, utxos = []\<rparr>"

text \<open>
  The functions of other packages the handlers call; \<open>None\<close> stands for an exception
  thrown by the package. \<open>publicKeyVerify\<close> is \<open>secp256k1.publicKeyVerify\<close>, which
  \<open>commitPubkey\<close> of signatory.ts calls on the key before it sends a signatory-key
  transaction.
  \<open>chainAdd\<close> is \<open>Blockchain({ store }).add(headers)\<close>: it returns the store as it
  leaves it, and the exception if it throws.
\<close>

record packages =
  decode :: "bytes \<Rightarrow> decodedTx option"
  getTxHash :: "decodedTx \<Rightarrow> bytes"
  toBase64 :: "bytes \<Rightarrow> string"
  fromBase64 :: "string \<Rightarrow> bytes"
  getByHeight :: "header list \<Rightarrow> int \<Rightarrow> header option"
  verifyMerkleProof :: "merkleProof \<Rightarrow> bytes list option"
  ed25519Verify :: "bytes \<Rightarrow> bytes \<Rightarrow> bytes \<Rightarrow> bool"
  publicKeyVerify :: "bytes \<Rightarrow> bool"
  chainAdd :: "header list \<Rightarrow> header list \<Rightarrow> error option \<times> header list"

definition SIGNATORY_KEY_LENGTH :: nat where
  "SIGNATORY_KEY_LENGTH = 33"

definition SIGNATURE_LENGTH :: nat where
  "SIGNATURE_LENGTH = 64"

text \<open>
  A handler mutates the state object in place and may throw. Its model returns the
  exception, if any, together with the state object as the handler leaves it.
\<close>

definition depositTx :: "packages \<Rightarrow> state \<Rightarrow> depositMsg \<Rightarrow> error option \<times> state" where
  "depositTx pkg st tx =
     (case decode pkg (transaction tx) of
        None \<Rightarrow> (Some BadFormat, st)
      | Some bitcoinTx \<Rightarrow>
          (let txid = getTxHash pkg bitcoinTx;
               txidBase64 = toBase64 pkg txid
           in if processedTxs st txidBase64 = Some True then (Some AlreadyProcessed, st)
              else
                (let st = st\<lparr>processedTxs := (processedTxs st)(txidBase64 \<mapsto> True)\<rparr>
                 in case getByHeight pkg (chain st) (proofHeight (txProof tx)) of
                      None \<Rightarrow> (Some UnknownHeight, st)
                    | Some hdr \<Rightarrow>
                        (case verifyMerkleProof pkg
                                ((txProof tx)\<lparr>proofMerkleRoot := merkleRoot hdr\<rparr>) of
                           None \<Rightarrow> (Some BadProof, st)
                         | Some txids \<Rightarrow>
                             if length txids \<noteq> 1 then (Some BadProofCount, st)
                             else if hd txids \<noteq> txid then (Some BadProofMismatch, st)
                             else (None, st)))))"

text \<open>
  \<open>signatoryIndex\<close> is an integer and both buffers are buffers by their types.
  \<open>signatorySet[signatoryIndex]\<close> outside the array is \<open>undefined\<close>, and reading its
  \<open>validatorKey\<close> throws a \<open>TypeError\<close>; inside the array \<open>validatorKey\<close> is never null.
\<close>

definition signatoryKeyTx ::
  "packages \<Rightarrow> state \<Rightarrow> signatoryKeyMsg \<Rightarrow> validatorMap \<Rightarrow> error option \<times> state" where
  "signatoryKeyTx pkg st tx validators =
     (if length (signatoryKey tx) \<noteq> SIGNATORY_KEY_LENGTH then (Some InvalidKeyLength, st)
      else if length (signature tx) \<noteq> SIGNATURE_LENGTH then (Some InvalidKeyLength, st)
      else
        (let signatorySet = getSignatorySet validators
         in if signatoryIndex tx < 0 \<or> signatoryIndex tx \<ge> int (length signatorySet)
            then (Some TypeError, st)
            else
              (let validatorKeyBase64 = validatorKey (signatorySet ! nat (signatoryIndex tx));
                   validatorKeyBytes = fromBase64 pkg validatorKeyBase64
               in if \<not> ed25519Verify pkg (signature tx) (signatoryKey tx) validatorKeyBytes
                  then (Some InvalidSignature, st)
                  else (None, st\<lparr>signatoryKeys :=
                                   (signatoryKeys st)(validatorKeyBase64 \<mapsto> signatoryKey tx)\<rparr>))))"

text \<open>
  \<open>headersTx\<close> hands the headers to \<open>chain.add\<close> of blockchain-spv, which extends the
  store \<open>state.chain\<close> in place and may throw.
\<close>

definition headersTx :: "packages \<Rightarrow> state \<Rightarrow> header list \<Rightarrow> error option \<times> state" where
  "headersTx pkg st hs =
     (case chainAdd pkg (chain st) hs of (e, store) \<Rightarrow> (e, st\<lparr>chain := store\<rparr>))"

text \<open>
  A transaction of the peg is an object; \<open>txHandler\<close> dispatches on the first of the
  fields \<open>headers\<close>, \<open>transaction\<close>, \<open>signatoryKey\<close> that it has, and throws when it has
  none. \<open>contextValidators\<close> is \<open>context.validators\<close>, the validator map of the consensus layer.
\<close>

datatype pegTx =
    HeadersTx "header list"
  | DepositTx depositMsg
  | SignatoryKeyTx signatoryKeyMsg
  | UnknownTx

record txContext =
  contextValidators :: validatorMap

definition txHandler :: "packages \<Rightarrow> state \<Rightarrow> pegTx \<Rightarrow> txContext \<Rightarrow> error option \<times> state" where
  "txHandler pkg st tx ctx =
     (case tx of
        HeadersTx hs \<Rightarrow> headersTx pkg st hs
      | DepositTx d \<Rightarrow> depositTx pkg st d
      | SignatoryKeyTx k \<Rightarrow> signatoryKeyTx pkg st k (contextValidators ctx)
      | UnknownTx \<Rightarrow> (Some UnknownTransactionType, st))"

text \<open>
  Modelled from the spec: the state machine of the host application, which is not
  among the sources of this repository. The module exports \<open>txHandler\<close> as the \<open>tx\<close>
  middleware of the host; the host runs it on the replicated state for every submitted
  transaction. A transaction whose handler throws is rejected and the replicated state
  stays as it was before the transaction, whatever the handler had written ("the
  offending transaction is dropped, state is unchanged", "once submitted, the
  transaction either applies atomically or is rejected"); otherwise the state the
  handler leaves is the new replicated state.
\<close>

definition deliverTx :: "packages \<Rightarrow> state \<Rightarrow> pegTx \<Rightarrow> txContext \<Rightarrow> error option \<times> state" where
  "deliverTx pkg st tx ctx =
     (case txHandler pkg st tx ctx of
        (None, st') \<Rightarrow> (None, st')
      | (Some e, st') \<Rightarrow> (Some e, st))"

section \<open>Concrete inputs\<close>

text \<open>
  Instances of the two package interfaces and a few inputs, used where a statement is
  evaluated at a concrete input. \<open>sizeLib\<close> measures a transaction as its serialization
  without witnesses does (4 bytes of version, 4 of lock time, two counts, 41 bytes for
  an input with an empty script, 9 bytes and the script for an output) and returns one
  fixed 34-byte program for every script.
\<close>

definition sizeLib :: bitcoinjs where
  "sizeLib =
     \<lparr>byteLength = (\<lambda>tx. 10 + 41 * int (length (ins tx))
                          + sum_list (map (\<lambda>out. 9 + int (length (outScript out))) (outs tx))),
      p2wshOutput = (\<lambda>ws net. CHR 0x00 # CHR 0x20 # replicate 32 (CHR 0x11))\<rparr>"

text \<open>
  \<open>demoPackages\<close>: a transaction is serialized as the script of its single output of
  \<open>5\<cdot>10\<^sup>8\<close> satoshis and hashed to that script, base64 text is the bytes themselves,
  the chain is indexed from the height of its first header, a Merkle proof is the proof
  of a block with one transaction (the root is the hash of that transaction), a signature
  is valid when it is 64 bytes \<open>0x01\<close>, and a public key is valid when it has 33 bytes
  and starts with \<open>0x02\<close> or \<open>0x03\<close>.
\<close>

definition demoPackages :: packages where
  "demoPackages =
     \<lparr>decode = (\<lambda>b. if b = [] then None
                      else Some \<lparr>txVersion = 1, txIns = [],
                                 txOuts = [\<lparr>outScript = b, outValue = 500000000\<rparr>],
                                 txLocktime = 0\<rparr>),
      getTxHash = (\<lambda>t. concat (map outScript (txOuts t))),
      toBase64 = (\<lambda>b. b),
      fromBase64 = (\<lambda>s. s),
      getByHeight = (\<lambda>store h. case store of
                        [] \<Rightarrow> None
                      | first # _ \<Rightarrow>
                          if 0 \<le> h - height first \<and> h - height first < int (length store)
                          then Some (store ! nat (h - height first)) else None),
      verifyMerkleProof = (\<lambda>p. if proofHashes p = [proofMerkleRoot p] then Some (proofHashes p)
                                else None),
      ed25519Verify = (\<lambda>sig msg key. sig = replicate 64 (CHR 0x01)),
      publicKeyVerify = (\<lambda>key. length key = 33 \<and> (hd key = CHR 0x02 \<or> hd key = CHR 0x03)),
      chainAdd = (\<lambda>store hs. (None, store @ hs))\<rparr>"

definition demoHeader :: header where
  "demoHeader = \<lparr>height = 100, version = 1, prevHash = replicate 32 (CHR 0x00),
                  merkleRoot = [CHR 0x51], timestamp = 0, bits = 0, nonce = 0\<rparr>"

text \<open>A deposit of the transaction in the block of \<open>demoHeader\<close>, with its proof.\<close>

definition goodDeposit :: depositMsg where
  "goodDeposit = \<lparr>transaction = [CHR 0x51],
                   txProof = \<lparr>proofHeight = 100, proofMerkleRoot = [], proofHashes = [[CHR 0x51]]\<rparr>\<rparr>"

text \<open>A deposit of a transaction that is not in that block.\<close>

definition badDeposit :: depositMsg where
  "badDeposit = \<lparr>transaction = [CHR 0x52],
                  txProof = \<lparr>proofHeight = 100, proofMerkleRoot = [], proofHashes = [[CHR 0x52]]\<rparr>\<rparr>"

text \<open>A signatory-key transaction whose key is 33 zero bytes.\<close>

definition zeroKeyMsg :: signatoryKeyMsg where
  "zeroKeyMsg = \<lparr>signatoryIndex = 0, signatoryKey = replicate 33 (CHR 0x00),
                  signature = replicate 64 (CHR 0x01)\<rparr>"

text \<open>Three consensus keys: 32 zero bytes, and the same with first byte 04 and fc.\<close>

definition keyZero :: bytes where
  "keyZero = replicate 32 (CHR 0x00)"

definition keyFour :: bytes where
  "keyFour = CHR 0x04 # replicate 31 (CHR 0x00)"

definition keyFC :: bytes where
  "keyFC = CHR 0xfc # replicate 31 (CHR 0x00)"

definition bobValidators :: validatorMap where
  "bobValidators = [(''B'', 10)]"

definition bobKeys :: signatoryKeyMap where
  "bobKeys = [''B'' \<mapsto> replicate 33 (CHR 0x02)]"

text \<open>Two validators of which only the first has committed a key.\<close>

definition twoValidators :: validatorMap where
  "twoValidators = [(''A'', 10), (''B'', 5)]"

definition aliceKeys :: signatoryKeyMap where
  "aliceKeys = [''A'' \<mapsto> replicate 33 (CHR 0x02)]"

text \<open>Scenario E4: inputs of \<open>10\<^sup>4\<close> satoshis and one user output of \<open>10\<^sup>4\<close>.\<close>

definition e4SigningTx :: signingTx where
  "e4SigningTx =
     \<lparr>inputs = [\<lparr>amount = 10000, txid = replicate 32 (CHR 0x01), index = 0\<rparr>],
      outputs = [\<lparr>amount = 10000, script = [CHR 0x51]\<rparr>]\<rparr>"

text \<open>Scenario E2: one user output of \<open>5\<cdot>10\<^sup>8\<close> satoshis out of \<open>10\<^sup>9\<close>.\<close>

definition e2SigningTx :: signingTx where
  "e2SigningTx =
     \<lparr>inputs = [\<lparr>amount = 1000000000, txid = replicate 32 (CHR 0x01), index = 0\<rparr>],
      outputs = [\<lparr>amount = 500000000, script = [CHR 0x51]\<rparr>]\<rparr>"

definition e2BuiltTx :: Transaction where
  "e2BuiltTx =
     \<lparr>ins = [\<lparr>hash = replicate 32 (CHR 0x01), inIndex = 0\<rparr>],
      outs = [\<lparr>outScript = [CHR 0x51], outValue = 499999000\<rparr>,
              \<lparr>outScript = CHR 0x00 # CHR 0x20 # replicate 32 (CHR 0x11),
               outValue = 500000000\<rparr>]\<rparr>"

text \<open>A disbursal with one input of 5000 satoshis and no user output.\<close>

definition sweepSigningTx :: signingTx where
  "sweepSigningTx =
     \<lparr>inputs = [\<lparr>amount = 5000, txid = replicate 32 (CHR 0x01), index = 0\<rparr>],
      outputs = []\<rparr>"

definition sweepBuiltTx :: Transaction where
  "sweepBuiltTx =
     \<lparr>ins = [\<lparr>hash = replicate 32 (CHR 0x01), inIndex = 0\<rparr>],
      outs = [\<lparr>outScript = CHR 0x00 # CHR 0x20 # replicate 32 (CHR 0x11),
               outValue = 5000\<rparr>]\<rparr>"

section \<open>Properties of reserve.ts\<close>

subsection \<open>The signatory set\<close>

lemma compareEntries_pos: "compareEntries a b > 0 \<longleftrightarrow> ranksBefore b a"
  by (auto simp: compareEntries_def ranksBefore_def Let_def)

lemma ranksBefore_trans: "ranksBefore a b \<Longrightarrow> ranksBefore b c \<Longrightarrow> ranksBefore a c"
  by (auto simp: ranksBefore_def)

lemma ranksBefore_asym: "ranksBefore a b \<Longrightarrow> \<not> ranksBefore b a"
  by (auto simp: ranksBefore_def)

lemma ranksBefore_total: "fst a \<noteq> fst b \<Longrightarrow> ranksBefore a b \<or> ranksBefore b a"
  by (auto simp: ranksBefore_def)

lemma mset_insertBy: "mset (insertBy c x xs) = add_mset x (mset xs)"
  by (induction xs) auto

lemma mset_sortBy: "mset (sortBy c xs) = mset xs"
  by (induction xs) (simp_all add: sortBy_def mset_insertBy)

lemma set_insertBy: "set (insertBy c x xs) = insert x (set xs)"
  by (induction xs) auto

lemma set_sortBy: "set (sortBy c xs) = set xs"
  by (induction xs) (simp_all add: sortBy_def set_insertBy)

lemma sorted_insertBy:
  assumes "sorted_wrt ranksBefore xs" and "\<forall>y \<in> set xs. fst y \<noteq> fst x"
  shows "sorted_wrt ranksBefore (insertBy compareEntries x xs)"
  using assms
proof (induction xs)
  case Nil
  then show ?case by simp
next
  case (Cons y ys)
  show ?case
  proof (cases "compareEntries x y > 0")
    case True
    then have "ranksBefore y x" by (simp add: compareEntries_pos)
    with Cons show ?thesis using True by (auto simp: set_insertBy)
  next
    case False
    then have "\<not> ranksBefore y x" by (simp add: compareEntries_pos)
    moreover from Cons.prems have "fst x \<noteq> fst y" by auto
    ultimately have xy: "ranksBefore x y" using ranksBefore_total by blast
    with Cons.prems have "\<forall>z \<in> set ys. ranksBefore x z"
      by (auto intro: ranksBefore_trans)
    with xy Cons.prems False show ?thesis by simp
  qed
qed

lemma sorted_sortBy:
  "distinct (map fst xs) \<Longrightarrow> sorted_wrt ranksBefore (sortBy compareEntries xs)"
proof (induction xs)
  case Nil
  then show ?case by (simp add: sortBy_def)
next
  case (Cons x xs)
  then have "sorted_wrt ranksBefore (sortBy compareEntries xs)" by simp
  moreover from Cons.prems have "fst x \<notin> fst ` set xs" by simp
  then have "\<forall>y \<in> set (sortBy compareEntries xs). fst y \<noteq> fst x"
    unfolding set_sortBy by (metis imageI)
  ultimately have "sorted_wrt ranksBefore (insertBy compareEntries x (sortBy compareEntries xs))"
    by (rule sorted_insertBy)
  then show ?case by (simp add: sortBy_def)
qed

text \<open>
  Two lists with the same entries, both in the order of the comparison function, are
  the same list: the result of \<open>entries.sort\<close> does not depend on the algorithm.
\<close>

lemma sorted_perm_unique:
  "sorted_wrt ranksBefore xs \<Longrightarrow> sorted_wrt ranksBefore ys \<Longrightarrow> mset xs = mset ys \<Longrightarrow> xs = ys"
proof (induction xs arbitrary: ys)
  case Nil
  then show ?case by simp
next
  case (Cons x xs)
  then obtain y ys' where ys: "ys = y # ys'" by (cases ys) auto
  have "x = y"
  proof (rule ccontr)
    assume ne: "x \<noteq> y"
    from Cons.prems(3) ys have "x \<in> set ys" "y \<in> set (x # xs)"
      by (metis list.set_intros(1) mset_eq_setD)+
    with ne ys have "x \<in> set ys'" "y \<in> set xs" by auto
    with Cons.prems(1,2) ys have "ranksBefore y x" "ranksBefore x y" by auto
    then show False using ranksBefore_asym by blast
  qed
  with Cons ys show ?case by simp
qed

text \<open>
  C4, as the code has it. For a validator map (its keys distinct), the selector returns
  the first 76 entries of the map arranged by voting power, highest first, entries of
  equal voting power by the text of their map key in ascending order of its characters.
  The map key is the base64 text of the consensus key, so for the map \<open>{K1: 5, K2: 5}\<close>
  the selector returns \<open>[K1, K2]\<close> when the base64 text of \<open>K1\<close> is the smaller one,
  whichever key was inserted first, and whatever the order of the bytes of the keys.
\<close>

theorem getSignatorySet_order:
  assumes "distinct (map fst validators)" and "base64 k1 < base64 k2"
  shows "(\<exists>entries. mset entries = mset validators
            \<and> sorted_wrt (\<lambda>a b. snd b < snd a \<or> (snd a = snd b \<and> fst a < fst b)) entries
            \<and> getSignatorySet validators =
                take 76 (map (\<lambda>(k, p). \<lparr>votingPower = p, validatorKey = k\<rparr>) entries))
       \<and> map validatorKey (getSignatorySet [(base64 k1, 5), (base64 k2, 5)])
           = [base64 k1, base64 k2]
       \<and> map validatorKey (getSignatorySet [(base64 k2, 5), (base64 k1, 5)])
           = [base64 k1, base64 k2]"
proof -
  have "sorted_wrt (\<lambda>a b. snd b < snd a \<or> (snd a = snd b \<and> fst a < fst b))
          (sortBy compareEntries validators)"
    using sorted_sortBy [OF assms(1)] by (simp add: ranksBefore_def [abs_def])
  then have "\<exists>entries. mset entries = mset validators
            \<and> sorted_wrt (\<lambda>a b. snd b < snd a \<or> (snd a = snd b \<and> fst a < fst b)) entries
            \<and> getSignatorySet validators =
                take 76 (map (\<lambda>(k, p). \<lparr>votingPower = p, validatorKey = k\<rparr>) entries)"
    by (intro exI [of _ "sortBy compareEntries validators"])
       (simp add: mset_sortBy getSignatorySet_def MAX_SIGNATORIES_def)
  moreover from assms(2) have "\<not> base64 k2 < base64 k1" by simp
  with assms(2) have
    "map validatorKey (getSignatorySet [(base64 k1, 5), (base64 k2, 5)]) = [base64 k1, base64 k2]"
    "map validatorKey (getSignatorySet [(base64 k2, 5), (base64 k1, 5)]) = [base64 k1, base64 k2]"
    by (simp_all add: getSignatorySet_def sortBy_def compareEntries_def MAX_SIGNATORIES_def)
  ultimately show ?thesis by blast
qed

text \<open>
  The keys \<open>00\<dots>00\<close> and \<open>fc 00\<dots>00\<close>: the first is the smaller sequence of bytes, the
  second has the smaller base64 text (it starts with \<open>/\<close>, the other with \<open>A\<close>) and is
  returned first.
\<close>

theorem getSignatorySet_order_witness:
  "keyZero < keyFC \<and> base64 keyFC < base64 keyZero
     \<and> distinct (map fst [(base64 keyZero, 5::int), (base64 keyFC, 5)])
     \<and> map validatorKey (getSignatorySet [(base64 keyZero, 5), (base64 keyFC, 5)])
         = [base64 keyFC, base64 keyZero]"
proof -
  have b: "keyZero < keyFC" by code_simp
  have l: "base64 keyFC < base64 keyZero" by code_simp
  have d: "distinct (map fst [(base64 keyZero, 5::int), (base64 keyFC, 5)])" by code_simp
  from getSignatorySet_order [OF d l] b l d show ?thesis by blast
qed

text \<open>
  C4 as stated fails: the key \<open>00\<dots>00\<close> is smaller than the key \<open>04 00\<dots>00\<close> byte by
  byte, the voting powers are equal, and the selector does not return the greater key
  first.
\<close>

theorem getSignatorySet_tie_counterexample:
  "keyZero < keyFour
     \<and> map validatorKey (getSignatorySet [(base64 keyZero, 5), (base64 keyFour, 5)])
         \<noteq> [base64 keyFour, base64 keyZero]"
  by code_simp

subsection \<open>The integer pushes\<close>

lemma toString16_nonempty: "toString16 n \<noteq> []"
  by (subst toString16.simps) simp

lemma uint_nonempty: "uint n = Inr h \<Longrightarrow> h \<noteq> []"
  by (auto simp: uint_def Let_def toString16_nonempty split: if_splits)

text \<open>\<open>uint\<close> accepts exactly the integers of \<open>[0, 2\<^sup>3\<^sup>2)\<close>.\<close>

lemma uint_range: "(\<exists>h. uint n = Inr h) \<longleftrightarrow> 0 \<le> n \<and> n < 2 ^ 32"
  by (auto simp: uint_def Let_def)

lemma uint_rejects: "n < 0 \<or> 2 ^ 32 \<le> n \<Longrightarrow> uint n = Inl OutOfRange"
  by (auto simp: uint_def)

text \<open>
  C9 at the voting power 256. The code emits the hexadecimal digits of the number, most
  significant first: the push \<open>0100\<close>, the bytes \<open>01 00\<close>. The minimal little-endian
  encoding of 256 is the bytes \<open>00 01\<close>. (Read as a little-endian number, the bytes
  the code emits are the number 1.)
\<close>

theorem uint_256_not_little_endian:
  "uint 256 = Inr ''0100'' \<and> toHex (spec_littleEndian 256) = ''0001''"
  by code_simp

subsection \<open>The threshold\<close>

lemma foldl_votingPower:
  "foldl (\<lambda>sum s. sum + votingPower s) a xs = a + sum_list (map votingPower xs)"
  by (induction xs arbitrary: a) simp_all

lemma ceilDiv_ceiling: "ceilDiv a b = \<lceil>real_of_int a / real_of_int b\<rceil>"
  by (simp add: ceilDiv_def ceiling_divide_eq_div)

lemma getVotingPowerThreshold_ceiling:
  "getVotingPowerThreshold xs = \<lceil>2 * real_of_int (sum_list (map votingPower xs)) / 3\<rceil>"
  by (simp add: getVotingPowerThreshold_def foldl_votingPower ceilDiv_ceiling mult.commute)

lemma votingPower_committed:
  "map votingPower (committedSignatories s k)
     = map votingPower (filter (\<lambda>v. k (validatorKey v) \<noteq> None) s)"
  by (simp add: committedSignatories_def comp_def)

text \<open>
  C3, as the code has it. Whenever a witness script is emitted, its last two words are
  the push of the threshold and \<open>OP_GREATERTHAN\<close>, and the threshold is
  \<open>ceil(2 \<cdot> (sum of voting power) / 3)\<close> over those entries of the truncated selector
  output whose validator has a committed signatory key.
\<close>

theorem createWitnessScript_threshold:
  assumes "createWitnessScript validators keys = Inr ws"
  shows "\<exists>front t. ws = front @ [t, ''OP_GREATERTHAN'']
           \<and> uint \<lceil>2 * real_of_int (sum_list (map votingPower
                       (filter (\<lambda>v. keys (validatorKey v) \<noteq> None) (getSignatorySet validators)))) / 3\<rceil>
               = Inr t"
proof -
  let ?sigs = "committedSignatories (getSignatorySet validators) keys"
  from assms obtain s0 rest first others cmp where
    "?sigs = s0 # rest" and "firstSignatory s0 = Inr first"
    and "mapThrowing nthSignatory rest = Inr others"
    and cmp: "compare (getVotingPowerThreshold ?sigs) = Inr cmp"
    and ws: "ws = trim (first @ concat others @ cmp)"
    by (auto simp: createWitnessScript_def Let_def split: list.splits sum.splits)
  from cmp obtain t where t: "uint (getVotingPowerThreshold ?sigs) = Inr t"
    and "cmp = [t, ''OP_GREATERTHAN'']"
    by (auto simp: compare_def split: sum.splits)
  with ws uint_nonempty [OF t] have "ws = trim (first @ concat others) @ [t, ''OP_GREATERTHAN'']"
    by (simp add: trim_def)
  moreover from t have "uint \<lceil>2 * real_of_int (sum_list (map votingPower
                       (filter (\<lambda>v. keys (validatorKey v) \<noteq> None) (getSignatorySet validators)))) / 3\<rceil>
               = Inr t"
    by (simp add: getVotingPowerThreshold_ceiling votingPower_committed)
  ultimately show ?thesis by blast
qed

lemma bob_script:
  "createWitnessScript bobValidators bobKeys =
     Inr [toHex (replicate 33 (CHR 0x02)), ''OP_CHECKSIG'', ''OP_IF'', ''0a'',
          ''OP_ELSE'', ''OP_0'', ''OP_ENDIF'', ''07'', ''OP_GREATERTHAN'']"
  by code_simp

text \<open>Scenario E1: the single validator \<open>B\<close> with voting power 10 and a committed key.\<close>

theorem createWitnessScript_threshold_witness:
  "createWitnessScript bobValidators bobKeys =
     Inr [toHex (replicate 33 (CHR 0x02)), ''OP_CHECKSIG'', ''OP_IF'', ''0a'',
          ''OP_ELSE'', ''OP_0'', ''OP_ENDIF'', ''07'', ''OP_GREATERTHAN'']
   \<and> (\<exists>front t.
         [toHex (replicate 33 (CHR 0x02)), ''OP_CHECKSIG'', ''OP_IF'', ''0a'',
          ''OP_ELSE'', ''OP_0'', ''OP_ENDIF'', ''07'', ''OP_GREATERTHAN'']
           = front @ [t, ''OP_GREATERTHAN'']
         \<and> uint \<lceil>2 * real_of_int (sum_list (map votingPower
                     (filter (\<lambda>v. bobKeys (validatorKey v) \<noteq> None) (getSignatorySet bobValidators)))) / 3\<rceil>
             = Inr t)"
  using createWitnessScript_threshold [OF bob_script] bob_script by simp

text \<open>
  C3 as stated fails. The selector returns both validators of \<open>{A: 10, B: 5}\<close>, and the
  threshold over them is \<open>ceil(2 \<cdot> 15 / 3) = 10\<close>, pushed as \<open>0a\<close>; only \<open>A\<close> has
  committed a key, and the script ends with the push \<open>07\<close>: \<open>ceil(2 \<cdot> 10 / 3) = 7\<close>.
\<close>

theorem createWitnessScript_threshold_counterexample:
  "createWitnessScript twoValidators aliceKeys =
     Inr [toHex (replicate 33 (CHR 0x02)), ''OP_CHECKSIG'', ''OP_IF'', ''0a'',
          ''OP_ELSE'', ''OP_0'', ''OP_ENDIF'', ''07'', ''OP_GREATERTHAN'']
   \<and> length (getSignatorySet twoValidators) = 2
   \<and> getVotingPowerThreshold (getSignatorySet twoValidators) = 10
   \<and> uint 10 = Inr ''0a''"
  by code_simp

section \<open>Properties of the disbursal builder\<close>

lemma addInputs_ok:
  "addInputs tx t is = Inr (tx', t') \<Longrightarrow>
     ins tx' = ins tx @ map (\<lambda>i. \<lparr>hash = txid i, inIndex = index i\<rparr>) is
     \<and> outs tx' = outs tx
     \<and> t' = t + sum_list (map amount is)"
proof (induction "is" arbitrary: tx t)
  case Nil
  then show ?case by simp
next
  case (Cons i rest)
  from Cons.prems obtain tx1 where a: "addInput tx (txid i) (index i) = Inr tx1"
    and r: "addInputs tx1 (t + amount i) rest = Inr (tx', t')"
    by (auto split: sum.splits)
  from a have "tx1 = tx\<lparr>ins := ins tx @ [\<lparr>hash = txid i, inIndex = index i\<rparr>]\<rparr>"
    by (simp add: addInput_def split: if_splits)
  with Cons.IH [OF r] show ?case by simp
qed

lemma addInputs_valid:
  "\<forall>i \<in> set is. Hash256bit (txid i) \<and> UInt32 (index i) \<Longrightarrow>
     addInputs tx t is =
       Inr (tx\<lparr>ins := ins tx @ map (\<lambda>i. \<lparr>hash = txid i, inIndex = index i\<rparr>) is\<rparr>,
            t + sum_list (map amount is))"
  by (induction "is" arbitrary: tx t) (simp_all add: addInput_def)

lemma addOutputs_insufficient:
  "0 < k \<Longrightarrow> k \<le> length os \<Longrightarrow> \<forall>out \<in> set (take k os). Satoshi (amount out)
     \<Longrightarrow> r - sum_list (map amount (take k os)) \<le> 0
     \<Longrightarrow> addOutputs tx r os = Inl InsufficientFunds"
proof (induction os arbitrary: tx r k)
  case Nil
  then show ?case by simp
next
  case (Cons out rest)
  from Cons.prems obtain j where j: "k = Suc j" by (cases k) auto
  with Cons.prems have ok: "Satoshi (amount out)" by simp
  show ?case
  proof (cases "r - amount out \<le> 0")
    case True
    with ok show ?thesis by (simp add: addOutput_def Let_def)
  next
    case False
    with Cons.prems j have j0: "0 < j" by (cases j) auto
    from Cons.prems j have "j \<le> length rest"
      and "\<forall>out \<in> set (take j rest). Satoshi (amount out)"
      and "(r - amount out) - sum_list (map amount (take j rest)) \<le> 0" by simp_all
    from Cons.IH [OF j0 this] False ok show ?thesis by (simp add: addOutput_def Let_def)
  qed
qed

lemma addOutput_ok:
  "addOutput tx s v = Inr tx' \<Longrightarrow> tx' = tx\<lparr>outs := outs tx @ [\<lparr>outScript = s, outValue = v\<rparr>]\<rparr>"
  by (simp add: addOutput_def split: if_splits)

lemma addOutputs_ok:
  "addOutputs tx r os = Inr (tx', r') \<Longrightarrow>
     ins tx' = ins tx
     \<and> outs tx' = outs tx @ map (\<lambda>out. \<lparr>outScript = script out, outValue = amount out\<rparr>) os
     \<and> r' = r - sum_list (map amount os)"
proof (induction os arbitrary: tx r)
  case Nil
  then show ?case by simp
next
  case (Cons out rest)
  from Cons.prems obtain tx1 where a: "addOutput tx (script out) (amount out) = Inr tx1"
    and r: "addOutputs tx1 (r - amount out) rest = Inr (tx', r')"
    by (auto simp: Let_def split: sum.splits if_splits)
  from Cons.IH [OF r] addOutput_ok [OF a] show ?case by simp
qed

lemma sum_list_update_int:
  "i < length xs \<Longrightarrow> sum_list (xs[i := x]) = sum_list xs - xs ! i + (x::int)"
proof (induction xs arbitrary: i)
  case Nil
  then show ?case by simp
next
  case (Cons y ys)
  then show ?case by (cases i) simp_all
qed

text \<open>
  The fee loop keeps the scripts, and takes the fee per withdrawal from each of the
  outputs \<open>i, \<dots>, n - 1\<close>.
\<close>

lemma payFees_ok:
  "payFees f i n os = Inr os' \<Longrightarrow> n \<le> length os \<Longrightarrow> i \<le> n \<Longrightarrow>
     length os' = length os \<and> map outScript os' = map outScript os
     \<and> sum_list (map outValue os') = sum_list (map outValue os) - int (n - i) * f"
proof (induction f i n os rule: payFees.induct)
  case (1 f i n os)
  show ?case
  proof (cases "i < n")
    case False
    with "1.prems" show ?thesis by (simp add: payFees.simps)
  next
    case True
    let ?out = "(os ! i)\<lparr>outValue := outValue (os ! i) - f\<rparr>"
    from True "1.prems" have pos: "\<not> outValue ?out \<le> 0"
      and rec: "payFees f (Suc i) n (os[i := ?out]) = Inr os'"
      by (auto simp: payFees.simps [of f i n os] Let_def split: if_splits)
    from True "1.prems" have il: "i < length os" by simp
    have "length os' = length (os[i := ?out]) \<and> map outScript os' = map outScript (os[i := ?out])
       \<and> sum_list (map outValue os') = sum_list (map outValue (os[i := ?out])) - int (n - Suc i) * f"
      using "1.IH" [OF True refl refl pos rec] True "1.prems" by simp
    moreover have "map outScript (os[i := ?out]) = map outScript os"
      using il by (simp add: map_update) (metis list_update_id nth_map)
    moreover have "sum_list (map outValue (os[i := ?out])) = sum_list (map outValue os) - f"
      using il by (simp add: map_update sum_list_update_int)
    moreover from True have "int (n - i) = int (n - Suc i) + 1" by simp
    ultimately show ?thesis by (simp add: algebra_simps)
  qed
qed

lemma ceilDiv_covers: "0 < b \<Longrightarrow> a \<le> b * ceilDiv a b"
proof -
  assume b: "0 < b"
  have "b * ((- a) div b) + (- a) mod b = - a" by (rule mult_div_mod_eq)
  moreover from b have "0 \<le> (- a) mod b" by simp
  ultimately have "b * ((- a) div b) \<le> - a" by linarith
  then show ?thesis by (simp add: ceilDiv_def)
qed

lemma sizeLib_scripts:
  "ins t = ins t' \<and> map outScript (outs t) = map outScript (outs t')
     \<longrightarrow> byteLength sizeLib t = byteLength sizeLib t'"
proof
  assume a: "ins t = ins t' \<and> map outScript (outs t) = map outScript (outs t')"
  have eq: "\<And>os. (\<Sum>out\<leftarrow>os. 9 + int (length (outScript out)))
                = (\<Sum>s\<leftarrow>map outScript os. 9 + int (length s))"
    by (simp add: comp_def)
  from a have m: "map outScript (outs t) = map outScript (outs t')" by simp
  have "(\<Sum>out\<leftarrow>outs t. 9 + int (length (outScript out)))
          = (\<Sum>out\<leftarrow>outs t'. 9 + int (length (outScript out)))"
    unfolding eq m ..
  with a show "byteLength sizeLib t = byteLength sizeLib t'"
    by (simp add: sizeLib_def)
qed

lemma bob_output:
  "createOutput sizeLib bobValidators bobKeys ''regtest''
     = Inr (CHR 0x00 # CHR 0x20 # replicate 32 (CHR 0x11))"
  by code_simp

lemma e2_built:
  "buildOutgoingTx sizeLib e2SigningTx bobValidators bobKeys ''regtest'' = Inr e2BuiltTx"
  by code_simp

text \<open>
  C7. The inputs are such that the library accepts them (a 32-byte transaction id, an
  unsigned 32-bit index), and so are the amounts of the first \<open>k\<close> user outputs (at most
  \<open>21\<cdot>10\<^sup>1\<^sup>4\<close> satoshis, not negative). While the user outputs are added in order, as
  soon as the remaining amount (the sum of the inputs minus the amounts of the first
  \<open>k\<close> user outputs, \<open>k \<ge> 1\<close>) is zero or negative, the build fails with
  \<open>InsufficientFunds\<close>, whatever the signatory set.
\<close>

theorem buildOutgoingTx_insufficient_funds:
  assumes "\<forall>i \<in> set (inputs stx). Hash256bit (txid i) \<and> UInt32 (index i)"
    and "\<forall>out \<in> set (take k (outputs stx)). Satoshi (amount out)"
    and "0 < k" and "k \<le> length (outputs stx)"
    and "sum_list (map amount (inputs stx)) - sum_list (map amount (take k (outputs stx))) \<le> 0"
  shows "buildOutgoingTx lib stx validators keys network = Inl InsufficientFunds"
  using addOutputs_insufficient [OF assms(3,4,2), of "sum_list (map amount (inputs stx))"] assms(5)
  by (simp add: buildOutgoingTx_def addInputs_valid [OF assms(1)])

text \<open>
  Scenario E4: inputs summing to \<open>10\<^sup>4\<close> satoshis and one user output of \<open>10\<^sup>4\<close>.
\<close>

theorem buildOutgoingTx_insufficient_funds_witness:
  "sum_list (map amount (inputs e4SigningTx)) = 10000
     \<and> map amount (outputs e4SigningTx) = [10000]
     \<and> buildOutgoingTx sizeLib e4SigningTx bobValidators bobKeys ''regtest''
         = Inl InsufficientFunds"
proof -
  have a: "\<forall>i \<in> set (inputs e4SigningTx). Hash256bit (txid i) \<and> UInt32 (index i)"
    by (simp add: e4SigningTx_def Hash256bit_def UInt32_def)
  have b: "\<forall>out \<in> set (take 1 (outputs e4SigningTx)). Satoshi (amount out)"
    by (simp add: e4SigningTx_def Satoshi_def SATOSHI_MAX_def)
  have c: "(0::nat) < 1" and d: "1 \<le> length (outputs e4SigningTx)"
    and e: "sum_list (map amount (inputs e4SigningTx))
              - sum_list (map amount (take 1 (outputs e4SigningTx))) \<le> 0"
    by (simp_all add: e4SigningTx_def)
  from buildOutgoingTx_insufficient_funds [OF a b c d e] show ?thesis
    by (simp add: e4SigningTx_def)
qed

text \<open>
  C5, as the code has it. For every successfully built disbursal with at least one user
  output, the sum of the input amounts equals the sum of the output amounts plus the
  fee paid, which is the number of user outputs times
  \<open>ceil(max(byte length, MIN_RELAY_FEE) / number of user outputs)\<close>; that fee is at least
  \<open>MIN_RELAY_FEE\<close> and at least the byte length of the transaction. (The byte length of
  a transaction depends on its inputs and on the scripts of its outputs, not on the
  values, which are serialized in 8 bytes each.)
\<close>

theorem buildOutgoingTx_fee_conservation:
  assumes built: "buildOutgoingTx lib stx validators keys network = Inr tx"
    and users: "outputs stx \<noteq> []"
    and size: "\<forall>t t'. ins t = ins t' \<and> map outScript (outs t) = map outScript (outs t')
                 \<longrightarrow> byteLength lib t = byteLength lib t'"
  shows "sum_list (map amount (inputs stx))
           = sum_list (map outValue (outs tx))
             + int (length (outputs stx))
               * ceilDiv (max (byteLength lib tx) MIN_RELAY_FEE) (int (length (outputs stx)))
       \<and> MIN_RELAY_FEE \<le> int (length (outputs stx))
               * ceilDiv (max (byteLength lib tx) MIN_RELAY_FEE) (int (length (outputs stx)))
       \<and> byteLength lib tx \<le> int (length (outputs stx))
               * ceilDiv (max (byteLength lib tx) MIN_RELAY_FEE) (int (length (outputs stx)))"
proof -
  let ?n = "length (outputs stx)"
  let ?total = "sum_list (map amount (inputs stx))"
  obtain tx0 t0 where in0: "addInputs newTransaction 0 (inputs stx) = Inr (tx0, t0)"
    using built
    by (cases "addInputs newTransaction 0 (inputs stx)") (auto simp: buildOutgoingTx_def)
  obtain tx1 r where outs1: "addOutputs tx0 t0 (outputs stx) = Inr (tx1, r)"
    using built in0
    by (cases "addOutputs tx0 t0 (outputs stx)") (auto simp: buildOutgoingTx_def)
  obtain p2ss where p2ss: "createOutput lib validators keys network = Inr p2ss"
    using built in0 outs1
    by (cases "createOutput lib validators keys network") (auto simp: buildOutgoingTx_def)
  obtain tx2 where change: "addOutput tx1 p2ss r = Inr tx2"
    using built in0 outs1 p2ss
    by (cases "addOutput tx1 p2ss r") (auto simp: buildOutgoingTx_def)
  obtain txOuts' where
    fees: "payFees (ceilDiv (max (byteLength lib tx2) MIN_RELAY_FEE) (int ?n))
                 0 ?n (outs tx2) = Inr txOuts'"
    and tx: "tx = tx2\<lparr>outs := txOuts'\<rparr>"
    using built in0 outs1 p2ss change users
    by (cases "payFees (ceilDiv (max (byteLength lib tx2) MIN_RELAY_FEE) (int ?n))
                 0 ?n (outs tx2)") (auto simp: buildOutgoingTx_def Let_def)
  from addInputs_ok [OF in0] have t0: "t0 = ?total" and empty0: "outs tx0 = []"
    by (simp_all add: newTransaction_def)
  from addOutputs_ok [OF outs1] empty0 t0 have o1: "outs tx1 =
      map (\<lambda>out. \<lparr>outScript = script out, outValue = amount out\<rparr>) (outputs stx)"
    and r: "r = ?total - sum_list (map amount (outputs stx))"
    by simp_all
  from addOutput_ok [OF change] have tx2: "tx2 = tx1\<lparr>outs := outs tx1 @ [\<lparr>outScript = p2ss, outValue = r\<rparr>]\<rparr>" .
  have len: "?n \<le> length (outs tx2)" by (simp add: tx2 o1)
  from payFees_ok [OF fees len] have
    scripts: "map outScript txOuts' = map outScript (outs tx2)"
    and sum: "sum_list (map outValue txOuts') = sum_list (map outValue (outs tx2))
        - int ?n * ceilDiv (max (byteLength lib tx2) MIN_RELAY_FEE) (int ?n)"
    by simp_all
  from tx scripts have "ins tx = ins tx2 \<and> map outScript (outs tx) = map outScript (outs tx2)"
    by simp
  with size have bl: "byteLength lib tx = byteLength lib tx2" by blast
  have "sum_list (map outValue (outs tx2)) = ?total"
    by (simp add: tx2 o1 r comp_def)
  with sum tx bl have conserve: "?total = sum_list (map outValue (outs tx))
      + int ?n * ceilDiv (max (byteLength lib tx) MIN_RELAY_FEE) (int ?n)"
    by simp
  from users have "0 < int ?n" by simp
  from ceilDiv_covers [OF this, of "max (byteLength lib tx) MIN_RELAY_FEE"]
  have "max (byteLength lib tx) MIN_RELAY_FEE
          \<le> int ?n * ceilDiv (max (byteLength lib tx) MIN_RELAY_FEE) (int ?n)" .
  with conserve show ?thesis by simp
qed

text \<open>
  Scenario E2: the transaction has 104 bytes, the fee is 1000 satoshis, and the user
  output of \<open>5\<cdot>10\<^sup>8\<close> is paid \<open>5\<cdot>10\<^sup>8 - 1000\<close>.
\<close>

theorem buildOutgoingTx_fee_conservation_witness:
  "buildOutgoingTx sizeLib e2SigningTx bobValidators bobKeys ''regtest'' = Inr e2BuiltTx
     \<and> byteLength sizeLib e2BuiltTx = 104
     \<and> sum_list (map amount (inputs e2SigningTx)) = sum_list (map outValue (outs e2BuiltTx)) + 1000
     \<and> MIN_RELAY_FEE \<le> 1000"
proof -
  have users: "outputs e2SigningTx \<noteq> []" by (simp add: e2SigningTx_def)
  have size: "\<forall>t t'. ins t = ins t' \<and> map outScript (outs t) = map outScript (outs t')
                 \<longrightarrow> byteLength sizeLib t = byteLength sizeLib t'"
    using sizeLib_scripts by blast
  have len: "byteLength sizeLib e2BuiltTx = 104"
    by (simp add: sizeLib_def e2BuiltTx_def)
  have one: "int (length (outputs e2SigningTx)) = 1" by (simp add: e2SigningTx_def)
  from buildOutgoingTx_fee_conservation [OF e2_built users size] e2_built
  show ?thesis
    unfolding len one by (simp add: MIN_RELAY_FEE_def ceilDiv_def)
qed

text \<open>
  C5 as stated fails for a disbursal without user outputs: the transaction is built,
  its single output carries the whole input amount, and the fee paid is 0.
\<close>

theorem buildOutgoingTx_fee_counterexample:
  "buildOutgoingTx sizeLib sweepSigningTx bobValidators bobKeys ''regtest'' = Inr sweepBuiltTx
     \<and> length (inputs sweepSigningTx) = 1
     \<and> sum_list (map amount (inputs sweepSigningTx)) - sum_list (map outValue (outs sweepBuiltTx)) = 0
     \<and> (0::int) < MIN_RELAY_FEE"
  by code_simp

text \<open>
  C10, as the code has it. For every SigningTx whose user-output list is empty, whose
  inputs are such that the library accepts them (a 32-byte transaction id, an unsigned
  32-bit index) and sum to a positive amount of at most \<open>21\<cdot>10\<^sup>1\<^sup>4\<close> satoshis, and a
  signatory set for which the pay-to-signatory-set output script can be created, the
  builder succeeds and returns a transaction with the inputs in order and a single
  change output carrying the entire input sum.
\<close>

theorem buildOutgoingTx_no_user_outputs:
  assumes "outputs stx = []"
    and "\<forall>i \<in> set (inputs stx). Hash256bit (txid i) \<and> UInt32 (index i)"
    and "0 < sum_list (map amount (inputs stx))"
    and "sum_list (map amount (inputs stx)) \<le> SATOSHI_MAX"
    and "createOutput lib validators keys network = Inr p2ss"
  shows "buildOutgoingTx lib stx validators keys network =
           Inr \<lparr>ins = map (\<lambda>i. \<lparr>hash = txid i, inIndex = index i\<rparr>) (inputs stx),
                outs = [\<lparr>outScript = p2ss, outValue = sum_list (map amount (inputs stx))\<rparr>]\<rparr>"
proof -
  from assms(3,4) have "Satoshi (sum_list (map amount (inputs stx)))"
    by (simp add: Satoshi_def SATOSHI_MAX_def)
  with assms(1,5) show ?thesis
    by (simp add: buildOutgoingTx_def addInputs_valid [OF assms(2)] newTransaction_def
        addOutput_def)
qed

theorem buildOutgoingTx_no_user_outputs_witness:
  "outputs sweepSigningTx = [] \<and> 0 < sum_list (map amount (inputs sweepSigningTx))
     \<and> sum_list (map amount (inputs sweepSigningTx)) \<le> SATOSHI_MAX
     \<and> createOutput sizeLib bobValidators bobKeys ''regtest''
         = Inr (CHR 0x00 # CHR 0x20 # replicate 32 (CHR 0x11))
     \<and> buildOutgoingTx sizeLib sweepSigningTx bobValidators bobKeys ''regtest'' = Inr sweepBuiltTx"
proof -
  have a: "outputs sweepSigningTx = []"
    and w: "\<forall>i \<in> set (inputs sweepSigningTx). Hash256bit (txid i) \<and> UInt32 (index i)"
    and b: "0 < sum_list (map amount (inputs sweepSigningTx))"
    and c: "sum_list (map amount (inputs sweepSigningTx)) \<le> SATOSHI_MAX"
    by (simp_all add: sweepSigningTx_def Hash256bit_def UInt32_def SATOSHI_MAX_def)
  from buildOutgoingTx_no_user_outputs [OF a w b c bob_output] a b c bob_output show ?thesis
    by (simp add: sweepSigningTx_def sweepBuiltTx_def)
qed

text \<open>
  C10 as stated fails when no selected validator has committed a key: the change script
  cannot be created and the builder throws.
\<close>

theorem buildOutgoingTx_no_signatory_counterexample:
  "outputs sweepSigningTx = [] \<and> 0 < sum_list (map amount (inputs sweepSigningTx))
     \<and> buildOutgoingTx sizeLib sweepSigningTx bobValidators Map.empty ''regtest'' = Inl TypeError"
  by code_simp

section \<open>Properties of the transaction handlers\<close>

lemma genesis_bad_deposit:
  "depositTx demoPackages (initializer demoHeader) badDeposit =
     (Some BadProof, (initializer demoHeader)\<lparr>processedTxs := [[CHR 0x52] \<mapsto> True]\<rparr>)"
  by (simp add: depositTx_def demoPackages_def initializer_def demoHeader_def badDeposit_def Let_def)

lemma genesis_good_deposit:
  "depositTx demoPackages (initializer demoHeader) goodDeposit =
     (None, (initializer demoHeader)\<lparr>processedTxs := [[CHR 0x51] \<mapsto> True]\<rparr>)"
  by (simp add: depositTx_def demoPackages_def initializer_def demoHeader_def goodDeposit_def Let_def)

lemma singleton_hd: "length xs = Suc 0 \<Longrightarrow> xs = [hd xs]"
  by (cases xs) simp_all

text \<open>A transaction that the host rejects leaves the replicated state as it was.\<close>

lemma deliverTx_rejected_unchanged: "deliverTx pkg st tx ctx = (Some e, st') \<Longrightarrow> st' = st"
  by (auto simp: deliverTx_def split: prod.splits option.splits)

text \<open>
  The handler itself records the transaction id in \<open>processedTxs\<close> before it looks the
  header up and verifies the proof, so the state object it leaves when it throws for a
  bad proof has the id marked; that object is the one the host discards.
\<close>

lemma depositTx_marks_before_verifying:
  assumes "decode pkg (transaction tx) = Some bitcoinTx"
    and "processedTxs st (toBase64 pkg (getTxHash pkg bitcoinTx)) \<noteq> Some True"
    and "getByHeight pkg (chain st) (proofHeight (txProof tx)) = Some hdr"
    and "verifyMerkleProof pkg ((txProof tx)\<lparr>proofMerkleRoot := merkleRoot hdr\<rparr>) = None"
  shows "depositTx pkg st tx =
           (Some BadProof,
            st\<lparr>processedTxs := (processedTxs st)(toBase64 pkg (getTxHash pkg bitcoinTx) \<mapsto> True)\<rparr>)"
  using assms by (simp add: depositTx_def Let_def)

text \<open>
  C1. A deposit is submitted whose transaction decodes and was not processed before, at
  a height the chain has, and whose Merkle proof does not verify against the Merkle
  root of the header at that height to exactly the id of the transaction (the proof
  library throws, or the proof yields another number of ids than one, or another id).
  The transaction is rejected with one of the three errors of a bad proof, and the
  replicated state after it is the state before it: processed transactions, UTXOs,
  header chain and signatory keys are unchanged.
\<close>

theorem deliverTx_bad_proof_state_unchanged:
  assumes "decode pkg (transaction tx) = Some bitcoinTx"
    and "processedTxs st (toBase64 pkg (getTxHash pkg bitcoinTx)) \<noteq> Some True"
    and "getByHeight pkg (chain st) (proofHeight (txProof tx)) = Some hdr"
    and "verifyMerkleProof pkg ((txProof tx)\<lparr>proofMerkleRoot := merkleRoot hdr\<rparr>)
           \<noteq> Some [getTxHash pkg bitcoinTx]"
  shows "\<exists>e. (e = BadProof \<or> e = BadProofCount \<or> e = BadProofMismatch)
           \<and> deliverTx pkg st (DepositTx tx) ctx = (Some e, st)"
proof (cases "verifyMerkleProof pkg ((txProof tx)\<lparr>proofMerkleRoot := merkleRoot hdr\<rparr>)")
  case None
  with assms(1-3) show ?thesis
    by (simp add: deliverTx_def txHandler_def depositTx_def Let_def)
next
  case (Some txids)
  show ?thesis
  proof (cases "length txids = 1")
    case False
    with Some assms(1-3) show ?thesis
      by (simp add: deliverTx_def txHandler_def depositTx_def Let_def)
  next
    case True
    then have "txids = [hd txids]" by (simp add: singleton_hd)
    with Some assms(4) have "hd txids \<noteq> getTxHash pkg bitcoinTx" by auto
    with True Some assms(1-3) show ?thesis
      by (simp add: deliverTx_def txHandler_def depositTx_def Let_def)
  qed
qed

text \<open>
  Scenario E5: a deposit at height 100 of a transaction that is not in that block.
\<close>

theorem deliverTx_bad_proof_state_unchanged_witness:
  "processedTxs (initializer demoHeader) [CHR 0x52] = None
     \<and> verifyMerkleProof demoPackages
         ((txProof badDeposit)\<lparr>proofMerkleRoot := merkleRoot demoHeader\<rparr>) = None
     \<and> deliverTx demoPackages (initializer demoHeader) (DepositTx badDeposit)
           \<lparr>contextValidators = bobValidators\<rparr>
         = (Some BadProof, initializer demoHeader)"
proof -
  let ?btx = "\<lparr>txVersion = 1, txIns = [],
               txOuts = [\<lparr>outScript = [CHR 0x52], outValue = 500000000\<rparr>], txLocktime = 0\<rparr>"
  have h1: "decode demoPackages (transaction badDeposit) = Some ?btx"
    by (simp add: demoPackages_def badDeposit_def)
  have h2: "processedTxs (initializer demoHeader)
              (toBase64 demoPackages (getTxHash demoPackages ?btx)) \<noteq> Some True"
    by (simp add: demoPackages_def initializer_def)
  have h3: "getByHeight demoPackages (chain (initializer demoHeader))
              (proofHeight (txProof badDeposit)) = Some demoHeader"
    by (simp add: demoPackages_def initializer_def badDeposit_def demoHeader_def)
  have none: "verifyMerkleProof demoPackages
              ((txProof badDeposit)\<lparr>proofMerkleRoot := merkleRoot demoHeader\<rparr>) = None"
    by (simp add: demoPackages_def badDeposit_def demoHeader_def)
  then have h4: "verifyMerkleProof demoPackages
              ((txProof badDeposit)\<lparr>proofMerkleRoot := merkleRoot demoHeader\<rparr>)
            \<noteq> Some [getTxHash demoPackages ?btx]" by simp
  have p: "processedTxs (initializer demoHeader) [CHR 0x52] = None"
    by (simp add: initializer_def)
  have "deliverTx demoPackages (initializer demoHeader) (DepositTx badDeposit)
           \<lparr>contextValidators = bobValidators\<rparr> = (Some BadProof, initializer demoHeader)"
    using deliverTx_bad_proof_state_unchanged [OF h1 h2 h3 h4, of "\<lparr>contextValidators = bobValidators\<rparr>"]
      genesis_bad_deposit
    by (auto simp: deliverTx_def txHandler_def)
  with p none show ?thesis by simp
qed

text \<open>
  C2 on the code. A deposit that the handler accepts has one effect: its transaction id
  is recorded in \<open>processedTxs\<close>. The list of UTXOs and every other field of the state
  are as before, and nothing about the outputs of the transaction is checked.
\<close>

theorem depositTx_accept_effect:
  assumes "depositTx pkg st tx = (None, st')"
  shows "\<exists>bitcoinTx. decode pkg (transaction tx) = Some bitcoinTx
           \<and> st' = st\<lparr>processedTxs := (processedTxs st)(toBase64 pkg (getTxHash pkg bitcoinTx) \<mapsto> True)\<rparr>"
  using assms
  by (auto simp: depositTx_def Let_def split: option.splits if_splits)

text \<open>
  A deposit whose only output pays the one-byte script \<open>0x51\<close>, which is not the
  34-byte program of the signatory set, and which has no second output: it is accepted,
  and the list of UTXOs stays empty.
\<close>

theorem depositTx_accept_effect_witness:
  "decode demoPackages (transaction goodDeposit) =
       Some \<lparr>txVersion = 1, txIns = [],
             txOuts = [\<lparr>outScript = [CHR 0x51], outValue = 500000000\<rparr>], txLocktime = 0\<rparr>
     \<and> createOutput sizeLib bobValidators bobKeys ''regtest''
         = Inr (CHR 0x00 # CHR 0x20 # replicate 32 (CHR 0x11))
     \<and> depositTx demoPackages (initializer demoHeader) goodDeposit =
         (None, (initializer demoHeader)\<lparr>processedTxs := [[CHR 0x51] \<mapsto> True]\<rparr>)
     \<and> utxos ((initializer demoHeader)\<lparr>processedTxs := [[CHR 0x51] \<mapsto> True]\<rparr>) = []"
proof -
  have "decode demoPackages (transaction goodDeposit) =
       Some \<lparr>txVersion = 1, txIns = [],
             txOuts = [\<lparr>outScript = [CHR 0x51], outValue = 500000000\<rparr>], txLocktime = 0\<rparr>"
    by (simp add: demoPackages_def goodDeposit_def)
  with depositTx_accept_effect [OF genesis_good_deposit] genesis_good_deposit bob_output
  show ?thesis by (simp add: initializer_def)
qed

text \<open>
  C6 on the code. After a deposit has been accepted, submitting it again fails with
  \<open>AlreadyProcessed\<close> and changes nothing; the list of UTXOs after both submissions is
  the list before the first one: it has grown by no entry.
\<close>

theorem depositTx_twice:
  assumes "depositTx pkg st tx = (None, st')"
  shows "depositTx pkg st' tx = (Some AlreadyProcessed, st') \<and> utxos st' = utxos st"
  using assms
  by (auto simp: depositTx_def Let_def split: option.splits if_splits)

theorem depositTx_twice_witness:
  "depositTx demoPackages (initializer demoHeader) goodDeposit =
       (None, (initializer demoHeader)\<lparr>processedTxs := [[CHR 0x51] \<mapsto> True]\<rparr>)
     \<and> depositTx demoPackages ((initializer demoHeader)\<lparr>processedTxs := [[CHR 0x51] \<mapsto> True]\<rparr>)
           goodDeposit =
         (Some AlreadyProcessed, (initializer demoHeader)\<lparr>processedTxs := [[CHR 0x51] \<mapsto> True]\<rparr>)
     \<and> length (utxos ((initializer demoHeader)\<lparr>processedTxs := [[CHR 0x51] \<mapsto> True]\<rparr>))
         = length (utxos (initializer demoHeader))"
  using depositTx_twice [OF genesis_good_deposit] genesis_good_deposit by simp

text \<open>
  C8 on the code. A signatory-key transaction with a key of 33 bytes, a signature of 64
  bytes, an index inside the signatory set and a signature that verifies under the
  validator key at that index is accepted and its key is written to the registry, also
  when the key is not a valid public key: the handler checks the length of the key only.
\<close>

theorem signatoryKeyTx_accepts_invalid_point:
  assumes "length (signatoryKey tx) = 33" and "length (signature tx) = 64"
    and "0 \<le> signatoryIndex tx" and "signatoryIndex tx < int (length (getSignatorySet validators))"
    and "ed25519Verify pkg (signature tx) (signatoryKey tx)
           (fromBase64 pkg (validatorKey (getSignatorySet validators ! nat (signatoryIndex tx))))"
    and "\<not> publicKeyVerify pkg (signatoryKey tx)"
  shows "signatoryKeyTx pkg st tx validators =
           (None, st\<lparr>signatoryKeys := (signatoryKeys st)
              (validatorKey (getSignatorySet validators ! nat (signatoryIndex tx)) \<mapsto> signatoryKey tx)\<rparr>)"
  using assms
  by (simp add: signatoryKeyTx_def Let_def SIGNATORY_KEY_LENGTH_def SIGNATURE_LENGTH_def)

text \<open>The key of 33 zero bytes, committed for the validator \<open>B\<close>.\<close>

theorem signatoryKeyTx_accepts_invalid_point_witness:
  "length (signatoryKey zeroKeyMsg) = 33
     \<and> publicKeyVerify demoPackages (signatoryKey zeroKeyMsg) = False
     \<and> signatoryKeyTx demoPackages (initializer demoHeader) zeroKeyMsg bobValidators =
         (None, (initializer demoHeader)\<lparr>signatoryKeys := [''B'' \<mapsto> replicate 33 (CHR 0x00)]\<rparr>)"
proof -
  have set: "getSignatorySet bobValidators = [\<lparr>votingPower = 10, validatorKey = ''B''\<rparr>]"
    by (simp add: bobValidators_def getSignatorySet_def sortBy_def MAX_SIGNATORIES_def)
  have h1: "length (signatoryKey zeroKeyMsg) = 33" and h2: "length (signature zeroKeyMsg) = 64"
    and h3: "0 \<le> signatoryIndex zeroKeyMsg"
    by (simp_all add: zeroKeyMsg_def)
  have h4: "signatoryIndex zeroKeyMsg < int (length (getSignatorySet bobValidators))"
    by (simp add: set zeroKeyMsg_def)
  have h5: "ed25519Verify demoPackages (signature zeroKeyMsg) (signatoryKey zeroKeyMsg)
           (fromBase64 demoPackages
              (validatorKey (getSignatorySet bobValidators ! nat (signatoryIndex zeroKeyMsg))))"
    by (simp add: demoPackages_def zeroKeyMsg_def)
  have h6: "\<not> publicKeyVerify demoPackages (signatoryKey zeroKeyMsg)"
    by (simp add: demoPackages_def zeroKeyMsg_def)
  from signatoryKeyTx_accepts_invalid_point [OF h1 h2 h3 h4 h5 h6] h1 h6
  show ?thesis by (simp add: set zeroKeyMsg_def initializer_def)
qed

end
